theory Spec2Isabelle
  imports Complex_Main
begin

section \<open>Python values used by \<open>scripts/extract_qa.py\<close>\<close>

text \<open>
  A Python \<open>str\<close> is modelled as a \<open>string\<close>; a \<open>char\<close> stands for a code point
  below 256, and \<open>isspace\<close> and \<open>lower\<close> follow Python's \<open>str.isspace\<close> and
  \<open>str.lower\<close> on that range.
\<close>

definition TAB :: char where
  "TAB = CHR 0x09"

definition NL :: char where
  "NL = CHR 0x0A"

definition isspace :: "char \<Rightarrow> bool" where
  "isspace c =
     (let n = (of_char c :: nat)
      in (9 \<le> n \<and> n \<le> 13) \<or> (28 \<le> n \<and> n \<le> 32) \<or> n = 133 \<or> n = 160)"

text \<open>\<open>s.strip()\<close>: leading and trailing whitespace removed.\<close>

definition strip :: "string \<Rightarrow> string" where
  "strip s = rev (dropWhile isspace (rev (dropWhile isspace s)))"

definition lower_char :: "char \<Rightarrow> char" where
  "lower_char c =
     (let n = (of_char c :: nat)
      in if (65 \<le> n \<and> n \<le> 90) \<or> (192 \<le> n \<and> n \<le> 222 \<and> n \<noteq> 215)
         then char_of (n + 32) else c)"

definition lower :: "string \<Rightarrow> string" where
  "lower s = map lower_char s"

text \<open>\<open>sep.join(xs)\<close>.\<close>

fun join :: "string \<Rightarrow> string list \<Rightarrow> string" where
  "join sep [] = []"
| "join sep [x] = x"
| "join sep (x # y # ys) = x @ sep @ join sep (y # ys)"

text \<open>\<open>str(n)\<close> of a Python \<open>int\<close>: decimal digits, a minus sign when negative.\<close>

definition digit_char :: "nat \<Rightarrow> char" where
  "digit_char d = ''0123456789'' ! d"

function str_nat :: "nat \<Rightarrow> string" where
  "str_nat n = (if n < 10 then [digit_char n] else str_nat (n div 10) @ [digit_char (n mod 10)])"
  by pat_completeness auto
termination
  by (relation "measure (\<lambda>n. n)") auto

declare str_nat.simps [simp del]

definition str_int :: "int \<Rightarrow> string" where
  "str_int i = (if i < 0 then CHR ''-'' # str_nat (nat (- i)) else str_nat (nat i))"

text \<open>
  The values \<open>json.loads\<close> returns. A \<open>dict\<close> keeps the insertion order of its keys,
  so it is an association list; \<open>JFloat m e\<close> is the \<open>float\<close> \<open>m * 2 ^ e\<close>, which no
  function of the script inspects.
\<close>

datatype json =
    JNull
  | JBool bool
  | JInt int
  | JFloat int int
  | JStr string
  | JArr "json list"
  | JObj "(string \<times> json) list"

text \<open>\<open>d[key] = v\<close> on a \<open>dict\<close>: an existing key keeps its place, a new key goes last.\<close>

fun setitem :: "string \<Rightarrow> json \<Rightarrow> (string \<times> json) list \<Rightarrow> (string \<times> json) list" where
  "setitem key v [] = [(key, v)]"
| "setitem key v ((k, x) # kvs) = (if k = key then (k, v) # kvs else (k, x) # setitem key v kvs)"

text \<open>\<open>d.get(key)\<close>, \<open>None\<close> also when the value is not a \<open>dict\<close>.\<close>

definition dict_get :: "string \<Rightarrow> json \<Rightarrow> json option" where
  "dict_get key v = (case v of JObj kvs \<Rightarrow> map_of kvs key | _ \<Rightarrow> None)"

datatype failure =
    SystemExit
  | ReadError
  | PromptError
  | KeyError
  | ServiceError
  | JSONDecodeError
  | TypeError

section \<open>Configuration tables\<close>

record model_config =
  model_id :: string
  config_temperature :: rat

text \<open>\<open>MODELS\<close>, lines 21-30.\<close>

definition MODELS :: "string \<rightharpoonup> model_config" where
  "MODELS = map_of
     [(''gemini-2.0-flash'', \<lparr>model_id = ''gemini-2.0-flash'', config_temperature = 7 / 10\<rparr>),
      (''gemini-3-flash-preview'', \<lparr>model_id = ''gemini-3-pro-preview'', config_temperature = 1\<rparr>)]"

text \<open>
  \<open>MODELS.get(model_key, MODELS['gemini-2.0-flash'])\<close>, line 120. The default is
  evaluated first, and would raise \<open>KeyError\<close> if the table lacked it.
\<close>

definition get_model_config :: "string \<Rightarrow> failure + model_config" where
  "get_model_config model_key =
     (case MODELS ''gemini-2.0-flash'' of
        None \<Rightarrow> Inl KeyError
      | Some dflt \<Rightarrow> Inr (case MODELS model_key of None \<Rightarrow> dflt | Some c \<Rightarrow> c))"

text \<open>\<open>CategoryType\<close>, line 84.\<close>

definition CategoryType :: "string list" where
  "CategoryType =
     [''Personal'', ''Ethics'', ''Leadership'', ''Teamwork'', ''Healthcare'', ''Technical'', ''Other'']"

section \<open>File readers\<close>

text \<open>
  What a path holds, as the reader libraries see it: decoded text, the paragraph texts of a
  word-processor document, the page texts of a PDF, the sheets of a workbook (each a list
  of rows of cell values), or bytes that the reader chosen by the suffix cannot decode.
\<close>

text \<open>
  A cell value as \<open>iter_rows(values_only=True)\<close> yields it. \<open>CObj t s\<close> is a value of
  any other type (a \<open>float\<close>, a \<open>datetime\<close>), given by its truth value \<open>bool(c)\<close> and its
  text \<open>str(c)\<close>, the only two things the reader asks of a cell.
\<close>

datatype cell =
    CNone
  | CBool bool
  | CInt int
  | CStr string
  | CObj bool string

datatype document =
    PlainText string
  | WordDoc "string list"
  | PdfDoc "string list"
  | Workbook "cell list list list"
  | Undecodable

text \<open>\<open>bool(c)\<close>.\<close>

fun truthy :: "cell \<Rightarrow> bool" where
  "truthy CNone = False"
| "truthy (CBool b) = b"
| "truthy (CInt i) = (i \<noteq> 0)"
| "truthy (CStr s) = (s \<noteq> [])"
| "truthy (CObj t s) = t"

text \<open>\<open>str(c)\<close>.\<close>

fun str_cell :: "cell \<Rightarrow> string" where
  "str_cell CNone = ''None''"
| "str_cell (CBool b) = (if b then ''True'' else ''False'')"
| "str_cell (CInt i) = str_int i"
| "str_cell (CStr s) = s"
| "str_cell (CObj t s) = s"

text \<open>The modules that can be imported; a reader whose library is missing exits.\<close>

type_synonym modules = "string list"

definition read_txt :: "modules \<Rightarrow> document \<Rightarrow> failure + string" where
  "read_txt mods d = (case d of PlainText s \<Rightarrow> Inr s | _ \<Rightarrow> Inl ReadError)"

definition read_md :: "modules \<Rightarrow> document \<Rightarrow> failure + string" where
  "read_md mods d = (case d of PlainText s \<Rightarrow> Inr s | _ \<Rightarrow> Inl ReadError)"

definition read_docx :: "modules \<Rightarrow> document \<Rightarrow> failure + string" where
  "read_docx mods d =
     (if ''docx'' \<notin> set mods then Inl SystemExit
      else case d of WordDoc ps \<Rightarrow> Inr (join [NL, NL] ps) | _ \<Rightarrow> Inl ReadError)"

definition read_pdf :: "modules \<Rightarrow> document \<Rightarrow> failure + string" where
  "read_pdf mods d =
     (if ''fitz'' \<notin> set mods then Inl SystemExit
      else case d of PdfDoc pages \<Rightarrow> Inr (join [NL, NL] pages) | _ \<Rightarrow> Inl ReadError)"

text \<open>Line 67: \<open>str(c) if c else ''\<close>, and the row \<open>'\t'.join(... for c in row)\<close>.\<close>

definition cell_text :: "cell \<Rightarrow> string" where
  "cell_text c = (if truthy c then str_cell c else [])"

definition row_text :: "cell list \<Rightarrow> string" where
  "row_text row = join [TAB] (map cell_text row)"

text \<open>Lines 64-70: the loop over the sheets and their rows, and the final join.\<close>

definition xlsx_text :: "cell list list list \<Rightarrow> string" where
  "xlsx_text wb = join [NL] (filter (\<lambda>t. strip t \<noteq> []) (map row_text (concat wb)))"

definition read_xlsx :: "modules \<Rightarrow> document \<Rightarrow> failure + string" where
  "read_xlsx mods d =
     (if ''openpyxl'' \<notin> set mods then Inl SystemExit
      else case d of Workbook wb \<Rightarrow> Inr (xlsx_text wb) | _ \<Rightarrow> Inl ReadError)"

text \<open>
  The spreadsheet reader as the specification words it: the cell values of a row joined by
  tabs, an empty cell as the empty string, rows that are all whitespace left out.
\<close>

definition spec_cell_text :: "cell \<Rightarrow> string" where
  "spec_cell_text c = (case c of CNone \<Rightarrow> [] | _ \<Rightarrow> str_cell c)"

definition spec_xlsx_text :: "cell list list list \<Rightarrow> string" where
  "spec_xlsx_text wb =
     join [NL] (filter (\<lambda>t. \<not> list_all isspace t) (map (\<lambda>row. join [TAB] (map spec_cell_text row)) (concat wb)))"

text \<open>A cell with its value forgotten when the value is falsy.\<close>

definition blank_falsy :: "cell \<Rightarrow> cell" where
  "blank_falsy c = (if truthy c then c else CNone)"

text \<open>\<open>READERS\<close>, lines 75-81.\<close>

definition READERS :: "string \<rightharpoonup> (modules \<Rightarrow> document \<Rightarrow> failure + string)" where
  "READERS = map_of
     [(''.txt'', read_txt), (''.md'', read_md), (''.docx'', read_docx),
      (''.pdf'', read_pdf), (''.xlsx'', read_xlsx)]"

section \<open>The declared record model\<close>

text \<open>
  \<open>InterviewQA\<close>, lines 86-90: what the model accepts, an object whose \<open>category\<close> is
  one of \<open>CategoryType\<close> and whose \<open>question\<close> and \<open>answer\<close> are strings. The script
  declares the model and never validates a value against it.
\<close>

definition InterviewQA :: "json \<Rightarrow> bool" where
  "InterviewQA v =
     ((case dict_get ''category'' v of Some (JStr c) \<Rightarrow> c \<in> set CategoryType | _ \<Rightarrow> False) \<and>
      (case dict_get ''question'' v of Some (JStr q) \<Rightarrow> True | _ \<Rightarrow> False) \<and>
      (case dict_get ''answer'' v of Some (JStr a) \<Rightarrow> True | _ \<Rightarrow> False))"

section \<open>The extraction request\<close>

text \<open>
  The response schema of lines 128-139, in the schema language it is written in: a string
  (with the values it is restricted to, if an \<open>enum\<close> is given), an array of items, an
  object with properties and required keys.
\<close>

datatype schema =
    SString "string list option"
  | SArray schema
  | SObject "(string \<times> schema) list" "string list"

definition response_schema :: schema where
  "response_schema =
     SArray (SObject
       [(''category'', SString None), (''question'', SString None), (''answer'', SString None)]
       [''category'', ''question'', ''answer''])"

text \<open>What the service contract admits for a schema: the values that conform to it.\<close>

fun conforms :: "schema \<Rightarrow> json \<Rightarrow> bool" where
  "conforms (SString enum) v =
     (case v of
        JStr s \<Rightarrow> (case enum of None \<Rightarrow> True | Some allowed \<Rightarrow> s \<in> set allowed)
      | _ \<Rightarrow> False)"
| "conforms (SArray items) v =
     (case v of JArr xs \<Rightarrow> list_all (conforms items) xs | _ \<Rightarrow> False)"
| "conforms (SObject props required) v =
     (case v of
        JObj kvs \<Rightarrow>
          list_all (\<lambda>k. map_of kvs k \<noteq> None) required \<and>
          list_all (\<lambda>(k, s). case map_of kvs k of None \<Rightarrow> True | Some x \<Rightarrow> conforms s x) props
      | _ \<Rightarrow> False)"

record request =
  req_api_key :: string
  model_name :: string
  system_instruction :: string
  temperature :: rat
  response_mime_type :: string
  req_schema :: schema
  user_prompt :: string

text \<open>
  The outcome of \<open>model.generate_content\<close> followed by \<open>json.loads(response.text)\<close>:
  the call raises, the text is not JSON, or the text is the JSON document of a value.
\<close>

datatype reply =
    CallFails
  | NotJSON
  | Parsed json

text \<open>
  Everything outside the script that it reads: the importable modules, the two prompt files
  beside it (\<open>None\<close> when unreadable), the template engine (\<open>None\<close> when it raises) and
  the service.
\<close>

record env =
  installed :: modules
  system_txt :: "string option"
  user_txt :: "string option"
  render :: "string \<Rightarrow> string \<Rightarrow> string option"
  generate :: "request \<Rightarrow> reply"

text \<open>Lines 99-141 of \<open>extract_with_gemini\<close>: everything before the call.\<close>

definition build_request :: "env \<Rightarrow> string \<Rightarrow> string \<Rightarrow> string \<Rightarrow> failure + request" where
  "build_request e content api_key model_key =
     (if ''google.generativeai'' \<notin> set (installed e) then Inl SystemExit
      else if ''jinja2'' \<notin> set (installed e) then Inl SystemExit
      else case system_txt e of
        None \<Rightarrow> Inl PromptError
      | Some system_prompt \<Rightarrow>
          (case user_txt e of
             None \<Rightarrow> Inl PromptError
           | Some template \<Rightarrow>
               (case render e template content of
                  None \<Rightarrow> Inl PromptError
                | Some prompt \<Rightarrow>
                    (case get_model_config model_key of
                       Inl err \<Rightarrow> Inl err
                     | Inr cfg \<Rightarrow>
                         Inr \<lparr>req_api_key = api_key,
                              model_name = model_id cfg,
                              system_instruction = system_prompt,
                              temperature = config_temperature cfg,
                              response_mime_type = ''application/json'',
                              req_schema = response_schema,
                              user_prompt = prompt\<rparr>))))"

text \<open>
  \<open>extract_with_gemini\<close>, lines 97-144. The second component lists the requests sent to
  the service.
\<close>

definition extract_with_gemini ::
  "env \<Rightarrow> string \<Rightarrow> string \<Rightarrow> string \<Rightarrow> (failure + json) \<times> request list" where
  "extract_with_gemini e content api_key model_key =
     (case build_request e content api_key model_key of
        Inl err \<Rightarrow> (Inl err, [])
      | Inr req \<Rightarrow>
          (case generate e req of
             CallFails \<Rightarrow> (Inl ServiceError, [req])
           | NotJSON \<Rightarrow> (Inl JSONDecodeError, [req])
           | Parsed v \<Rightarrow> (Inr v, [req])))"

section \<open>Processing one file\<close>

fun is_object :: "json \<Rightarrow> bool" where
  "is_object (JObj kvs) = True"
| "is_object v = False"


text \<open>
  A path as \<open>pathlib\<close> presents it (\<open>file_path.stem\<close>, \<open>file_path.suffix\<close>), with what
  the file holds.
\<close>

record path =
  stem :: string
  suffix :: string
  holds :: document

text \<open>\<open>f"{file_path.stem}_{i+1}.md"\<close>, line 167, for the zero-based position \<open>i\<close>.\<close>

definition record_id :: "string \<Rightarrow> nat \<Rightarrow> string" where
  "record_id base i = base @ ''_'' @ str_nat (i + 1) @ ''.md''"

text \<open>
  The body of the loop of lines 166-167 on a list: \<open>qa['id'] = ...\<close> needs \<open>qa\<close> to be a
  \<open>dict\<close>, and raises \<open>TypeError\<close> on any other value.
\<close>

fun stamp_from :: "string \<Rightarrow> nat \<Rightarrow> json list \<Rightarrow> failure + json list" where
  "stamp_from base i [] = Inr []"
| "stamp_from base i (qa # rest) =
     (case qa of
        JObj kvs \<Rightarrow>
          (case stamp_from base (i + 1) rest of
             Inl err \<Rightarrow> Inl err
           | Inr rest' \<Rightarrow> Inr (JObj (setitem ''id'' (JStr (record_id base i)) kvs) # rest'))
      | _ \<Rightarrow> Inl TypeError)"

text \<open>
  The loop of lines 166-167 on whatever \<open>json.loads\<close> returned. \<open>enumerate\<close> raises
  \<open>TypeError\<close> on a value that is not iterable; iterating a \<open>dict\<close> or a \<open>str\<close> yields
  strings, which reject the item assignment, so only the empty ones pass.
\<close>

definition add_ids :: "string \<Rightarrow> json \<Rightarrow> failure + json" where
  "add_ids base qa_pairs =
     (case qa_pairs of
        JArr xs \<Rightarrow> (case stamp_from base 0 xs of Inl err \<Rightarrow> Inl err | Inr ys \<Rightarrow> Inr (JArr ys))
      | JObj kvs \<Rightarrow> (if kvs = [] then Inr (JObj []) else Inl TypeError)
      | JStr s \<Rightarrow> (if s = [] then Inr (JStr []) else Inl TypeError)
      | _ \<Rightarrow> Inl TypeError)"

text \<open>\<open>process_file\<close>, lines 146-170, with the requests it sent to the service.\<close>

definition process_file ::
  "env \<Rightarrow> path \<Rightarrow> string \<Rightarrow> string \<Rightarrow> (failure + json) \<times> request list" where
  "process_file e file_path api_key model =
     (case READERS (lower (suffix file_path)) of
        None \<Rightarrow> (Inr (JArr []), [])
      | Some reader \<Rightarrow>
          (case reader (installed e) (holds file_path) of
             Inl err \<Rightarrow> (Inl err, [])
           | Inr content \<Rightarrow>
               if strip content = [] then (Inr (JArr []), [])
               else
                 (case extract_with_gemini e content api_key model of
                    (Inl err, sent) \<Rightarrow> (Inl err, sent)
                  | (Inr qa_pairs, sent) \<Rightarrow>
                      (case add_ids (stem file_path) qa_pairs of
                         Inl err \<Rightarrow> (Inl err, sent)
                       | Inr stamped \<Rightarrow> (Inr stamped, sent)))))"

section \<open>The run\<close>

text \<open>\<open>all_qa.extend(qa_pairs)\<close>, line 226: any iterable is accepted.\<close>

definition list_extend :: "json list \<Rightarrow> json \<Rightarrow> failure + json list" where
  "list_extend all_qa qa_pairs =
     (case qa_pairs of
        JArr xs \<Rightarrow> Inr (all_qa @ xs)
      | JObj kvs \<Rightarrow> Inr (all_qa @ map (\<lambda>(k, v). JStr k) kvs)
      | JStr s \<Rightarrow> Inr (all_qa @ map (\<lambda>c. JStr [c]) s)
      | _ \<Rightarrow> Inl TypeError)"

text \<open>
  The loop of lines 223-226 from the accumulator \<open>all_qa\<close>. An exception leaves the loop:
  no later file is processed.
\<close>

fun extract_each ::
  "env \<Rightarrow> string \<Rightarrow> string \<Rightarrow> path list \<Rightarrow> json list \<Rightarrow> (failure + json list) \<times> request list" where
  "extract_each e api_key model [] all_qa = (Inr all_qa, [])"
| "extract_each e api_key model (file_path # rest) all_qa =
     (case process_file e file_path api_key model of
        (Inl err, sent) \<Rightarrow> (Inl err, sent)
      | (Inr qa_pairs, sent) \<Rightarrow>
          (case list_extend all_qa qa_pairs of
             Inl err \<Rightarrow> (Inl err, sent)
           | Inr all_qa' \<Rightarrow>
               (case extract_each e api_key model rest all_qa' of
                  (r, sent') \<Rightarrow> (r, sent @ sent'))))"

text \<open>
  The output path: absent, present with text that \<open>json.loads\<close> does not accept, or
  holding the JSON document of a value. \<open>json.dumps\<close> followed by \<open>json.loads\<close> gives
  back the value written.
\<close>

datatype stored =
    Absent
  | Garbled
  | Stored json

text \<open>\<open>existing + all_qa\<close>, line 232: only a list can be added to a list.\<close>

definition concat_existing :: "json \<Rightarrow> json list \<Rightarrow> failure + json list" where
  "concat_existing existing all_qa =
     (case existing of JArr xs \<Rightarrow> Inr (xs @ all_qa) | _ \<Rightarrow> Inl TypeError)"

text \<open>
  The arguments after parsing: the key from the environment or the prompt, the files
  collected from the input paths, the model selector and the \<open>--append\<close> flag.
\<close>

record args =
  arg_api_key :: string
  arg_files :: "path list"
  arg_model :: string
  arg_append :: bool

text \<open>How a run ends: the exception it died of, if any, the output path and the requests sent.\<close>

record outcome =
  raised :: "failure option"
  out_file :: stored
  requests :: "request list"

text \<open>
  \<open>main\<close>, lines 172-237, from the parsed arguments. \<open>argparse\<close> refuses a model that is
  not a key of \<open>MODELS\<close>; an empty key and an empty file list exit.
\<close>

definition main :: "env \<Rightarrow> args \<Rightarrow> stored \<Rightarrow> outcome" where
  "main e a out =
     (if MODELS (arg_model a) = None then \<lparr>raised = Some SystemExit, out_file = out, requests = []\<rparr>
      else if arg_api_key a = [] then \<lparr>raised = Some SystemExit, out_file = out, requests = []\<rparr>
      else if arg_files a = [] then \<lparr>raised = Some SystemExit, out_file = out, requests = []\<rparr>
      else
        (case extract_each e (arg_api_key a) (arg_model a) (arg_files a) [] of
           (Inl err, sent) \<Rightarrow> \<lparr>raised = Some err, out_file = out, requests = sent\<rparr>
         | (Inr all_qa, sent) \<Rightarrow>
             if arg_append a \<and> out \<noteq> Absent then
               (case out of
                  Stored existing \<Rightarrow>
                    (case concat_existing existing all_qa of
                       Inl err \<Rightarrow> \<lparr>raised = Some err, out_file = out, requests = sent\<rparr>
                     | Inr merged \<Rightarrow>
                         \<lparr>raised = None, out_file = Stored (JArr merged), requests = sent\<rparr>)
                | _ \<Rightarrow> \<lparr>raised = Some JSONDecodeError, out_file = out, requests = sent\<rparr>)
             else \<lparr>raised = None, out_file = Stored (JArr all_qa), requests = sent\<rparr>))"

section \<open>Example runs\<close>

text \<open>An environment with every library installed, two prompt files and a given service.\<close>

definition example_env :: "(request \<Rightarrow> reply) \<Rightarrow> env" where
  "example_env service =
     \<lparr>installed = [''google.generativeai'', ''jinja2'', ''docx'', ''fitz'', ''openpyxl''],
      system_txt = Some ''Extract the questions and answers.'',
      user_txt = Some ''Document: '',
      render = (\<lambda>template content. Some (template @ content)),
      generate = service\<rparr>"

definition example_request :: "string \<Rightarrow> request" where
  "example_request content =
     \<lparr>req_api_key = ''key'',
      model_name = ''gemini-2.0-flash'',
      system_instruction = ''Extract the questions and answers.'',
      temperature = 7 / 10,
      response_mime_type = ''application/json'',
      req_schema = response_schema,
      user_prompt = ''Document: '' @ content\<rparr>"

definition txt_file :: "string \<Rightarrow> string \<Rightarrow> path" where
  "txt_file base content = \<lparr>stem = base, suffix = ''.txt'', holds = PlainText content\<rparr>"

definition qa :: "string \<Rightarrow> string \<Rightarrow> string \<Rightarrow> (string \<times> json) list" where
  "qa c q a = [(''category'', JStr c), (''question'', JStr q), (''answer'', JStr a)]"

definition example_args :: "path list \<Rightarrow> bool \<Rightarrow> args" where
  "example_args fs app =
     \<lparr>arg_api_key = ''key'', arg_files = fs, arg_model = ''gemini-2.0-flash'', arg_append = app\<rparr>"

text \<open>A service that answers by the document it is shown, and fails on any other.\<close>

definition scripted :: "request \<Rightarrow> reply" where
  "scripted req =
     (if user_prompt req = ''Document: alpha''
        then Parsed (JArr [JObj (qa ''Personal'' ''Q1'' ''A1''), JObj (qa ''Ethics'' ''Q2'' ''A2'')])
      else if user_prompt req = ''Document: beta''
        then Parsed (JArr [JObj (qa ''Other'' ''Q3'' ''A3'')])
      else if user_prompt req = ''Document: gamma''
        then Parsed (JArr [JObj (qa ''Technical'' ''Q4'' ''A4'')])
      else CallFails)"

text \<open>A response whose only element lacks the \<open>answer\<close> field.\<close>

definition missing_answer :: json where
  "missing_answer = JArr [JObj [(''category'', JStr ''Personal''), (''question'', JStr ''Q1'')]]"

text \<open>A response whose only element has a category outside \<open>CategoryType\<close>.\<close>

definition off_category :: json where
  "off_category = JArr [JObj (qa ''Misc'' ''Q1'' ''A1'')]"

definition three_answers :: json where
  "three_answers =
     JArr [JObj (qa ''Personal'' ''Q1'' ''A1''), JObj (qa ''Ethics'' ''Q2'' ''A2''),
           JObj (qa ''Other'' ''Q3'' ''A3'')]"

section \<open>Strings, identifiers and the stamping loop\<close>

lemma strip_empty_iff: "strip s = [] \<longleftrightarrow> list_all isspace s"
proof
  assume "strip s = []"
  then have all: "\<forall>c \<in> set (dropWhile isspace s). isspace c"
    by (simp add: strip_def dropWhile_eq_Nil_conv)
  have "dropWhile isspace s = []"
  proof (rule ccontr)
    assume ne: "dropWhile isspace s \<noteq> []"
    then have "\<not> isspace (hd (dropWhile isspace s))" by (rule hd_dropWhile)
    moreover from ne have "hd (dropWhile isspace s) \<in> set (dropWhile isspace s)" by simp
    ultimately show False using all by blast
  qed
  then show "list_all isspace s" by (simp add: dropWhile_eq_Nil_conv list_all_iff)
next
  assume "list_all isspace s"
  then show "strip s = []"
    by (auto simp: strip_def list_all_iff dest: set_dropWhileD)
qed

lemma digit_char_inj: "a < 10 \<Longrightarrow> b < 10 \<Longrightarrow> digit_char a = digit_char b \<Longrightarrow> a = b"
proof -
  assume a: "a < 10" and b: "b < 10" and eq: "digit_char a = digit_char b"
  have d: "distinct ''0123456789''" by simp
  have "a < length ''0123456789''" "b < length ''0123456789''" using a b by simp_all
  with d eq show "a = b" unfolding digit_char_def
    by (simp only: nth_eq_iff_index_eq)
qed

lemma str_nat_nonempty: "str_nat n \<noteq> []"
  by (subst str_nat.simps) simp

lemma str_nat_inj: "str_nat a = str_nat b \<Longrightarrow> a = b"
proof (induction a arbitrary: b rule: str_nat.induct)
  case (1 n)
  show ?case
  proof (cases "n < 10")
    case small: True
    then have n: "str_nat n = [digit_char n]" by (subst str_nat.simps) simp
    show ?thesis
    proof (cases "b < 10")
      case True
      then have "str_nat b = [digit_char b]" by (subst str_nat.simps) simp
      with n "1.prems" small True show ?thesis by (simp add: digit_char_inj)
    next
      case False
      then have "str_nat b = str_nat (b div 10) @ [digit_char (b mod 10)]"
        by (subst str_nat.simps) simp
      with n "1.prems" str_nat_nonempty [of "b div 10"] show ?thesis by simp
    qed
  next
    case big: False
    then have n: "str_nat n = str_nat (n div 10) @ [digit_char (n mod 10)]"
      by (subst str_nat.simps) simp
    show ?thesis
    proof (cases "b < 10")
      case True
      then have "str_nat b = [digit_char b]" by (subst str_nat.simps) simp
      with n "1.prems" str_nat_nonempty [of "n div 10"] show ?thesis by simp
    next
      case False
      then have b: "str_nat b = str_nat (b div 10) @ [digit_char (b mod 10)]"
        by (subst str_nat.simps) simp
      from n b "1.prems" have q: "str_nat (n div 10) = str_nat (b div 10)"
        and r: "digit_char (n mod 10) = digit_char (b mod 10)" by simp_all
      from "1.IH" [OF big q] have "n div 10 = b div 10" .
      moreover from r have "n mod 10 = b mod 10" by (simp add: digit_char_inj)
      ultimately show ?thesis by (metis div_mult_mod_eq)
    qed
  qed
qed

lemma record_id_inj: "record_id base i = record_id base j \<Longrightarrow> i = j"
  using str_nat_inj [of "i + 1" "j + 1"] by (simp add: record_id_def)

lemma map_of_setitem: "map_of (setitem key v kvs) k = (if k = key then Some v else map_of kvs k)"
  by (induction kvs) auto

lemma stamp_from_length: "stamp_from base i xs = Inr ys \<Longrightarrow> length ys = length xs"
  by (induction xs arbitrary: i ys) (auto split: json.splits sum.splits)

lemma stamp_from_nth:
  "stamp_from base i xs = Inr ys \<Longrightarrow> j < length xs \<Longrightarrow>
   \<exists>kvs. xs ! j = JObj kvs \<and> ys ! j = JObj (setitem ''id'' (JStr (record_id base (i + j))) kvs)"
proof (induction xs arbitrary: i ys j)
  case Nil
  then show ?case by simp
next
  case (Cons x xs)
  from Cons.prems(1) obtain kvs rest where x: "x = JObj kvs"
    and rest: "stamp_from base (i + 1) xs = Inr rest"
    and ys: "ys = JObj (setitem ''id'' (JStr (record_id base i)) kvs) # rest"
    by (auto split: json.splits sum.splits)
  show ?case
  proof (cases j)
    case 0
    with x ys show ?thesis by simp
  next
    case (Suc j')
    with Cons.prems(2) have "j' < length xs" by simp
    from Cons.IH [OF rest this] Suc x ys show ?thesis by simp
  qed
qed

lemma stamp_from_objects: "list_all is_object xs \<Longrightarrow> \<exists>ys. stamp_from base i xs = Inr ys"
proof (induction xs arbitrary: i)
  case Nil
  then show ?case by simp
next
  case (Cons x xs)
  from Cons.prems obtain kvs where x: "x = JObj kvs" by (cases x) simp_all
  from Cons.prems have "list_all is_object xs" by simp
  from Cons.IH [OF this, of "i + 1"] obtain ys where "stamp_from base (i + 1) xs = Inr ys" ..
  with x show ?case by simp
qed

lemma stamp_from_not_objects: "\<not> list_all is_object xs \<Longrightarrow> stamp_from base i xs = Inl TypeError"
proof (induction xs arbitrary: i)
  case Nil
  then show ?case by simp
next
  case (Cons x xs)
  show ?case
  proof (cases x)
    case (JObj kvs)
    with Cons.prems have "\<not> list_all is_object xs" by simp
    from Cons.IH [OF this, of "i + 1"] JObj show ?thesis by simp
  qed simp_all
qed

lemma extend_shift:
  "list_extend (p @ acc) v = (case list_extend acc v of Inl err \<Rightarrow> Inl err | Inr r \<Rightarrow> Inr (p @ r))"
  by (cases v) (simp_all add: list_extend_def)

lemma extract_each_shift:
  "extract_each e k m fs (p @ acc) =
     (case extract_each e k m fs acc of
        (Inl err, sent) \<Rightarrow> (Inl err, sent)
      | (Inr r, sent) \<Rightarrow> (Inr (p @ r), sent))"
proof (induction fs arbitrary: acc)
  case Nil
  show ?case by simp
next
  case (Cons f fs)
  show ?case
    by (simp add: extend_shift Cons.IH split: prod.splits sum.splits)
qed

lemma extract_each_append:
  "extract_each e k m (xs @ ys) acc =
     (case extract_each e k m xs acc of
        (Inl err, sent) \<Rightarrow> (Inl err, sent)
      | (Inr r, sent) \<Rightarrow> (case extract_each e k m ys r of (r', sent') \<Rightarrow> (r', sent @ sent')))"
proof (induction xs arbitrary: acc)
  case Nil
  show ?case by (simp split: prod.splits)
next
  case (Cons f fs)
  show ?case
    by (simp add: Cons.IH split: prod.splits sum.splits)
qed

lemma extract_each_from_empty:
  "extract_each e k m fs [] = (Inr new, sent) \<Longrightarrow> extract_each e k m fs prior = (Inr (prior @ new), sent)"
  using extract_each_shift [of e k m fs prior "[]"] by simp

section \<open>Blank input\<close>

text \<open>
  Claim C5. When the reader chosen for a file returns text that is empty or consists only
  of whitespace, \<open>process_file\<close> returns no record and sends no request to the service;
  in the loop over the files the run goes on as if the file were not there.
\<close>

theorem blank_file_contributes_nothing:
  assumes "READERS (lower (suffix f)) = Some reader"
    and "reader (installed e) (holds f) = Inr content"
    and "list_all isspace content"
  shows "process_file e f k m = (Inr (JArr []), []) \<and>
         extract_each e k m (f # rest) all_qa = extract_each e k m rest all_qa"
proof -
  have p: "process_file e f k m = (Inr (JArr []), [])"
    using assms by (simp add: process_file_def strip_empty_iff)
  then show ?thesis
    by (simp add: list_extend_def split: prod.splits)
qed

theorem blank_file_contributes_nothing_witness:
  "process_file (example_env (\<lambda>req. CallFails)) (txt_file ''notes'' [CHR '' '', NL, TAB])
     ''key'' ''gemini-2.0-flash'' = (Inr (JArr []), []) \<and>
   extract_each (example_env (\<lambda>req. CallFails)) ''key'' ''gemini-2.0-flash''
     [txt_file ''notes'' [CHR '' '', NL, TAB]] [] = (Inr [], [])"
proof -
  have r: "READERS (lower (suffix (txt_file ''notes'' [CHR '' '', NL, TAB]))) = Some read_txt"
    by (simp add: txt_file_def READERS_def lower_def lower_char_def)
  have c: "read_txt (installed (example_env (\<lambda>req. CallFails)))
      (holds (txt_file ''notes'' [CHR '' '', NL, TAB])) = Inr [CHR '' '', NL, TAB]"
    by (simp add: txt_file_def read_txt_def)
  have w: "list_all isspace [CHR '' '', NL, TAB]"
    by (simp add: isspace_def NL_def TAB_def)
  from blank_file_contributes_nothing [OF r c w, of "''key''" "''gemini-2.0-flash''" "[]" "[]"]
  show ?thesis
    by (simp add: list_extend_def)
qed

section \<open>Model selection\<close>

text \<open>
  Claim C7. Where the libraries and the prompts are in place, the extractor does not fail
  on the model selector, whatever it is. A selector that is not a key of \<open>MODELS\<close>
  resolves to the entry of \<open>gemini-2.0-flash\<close>, and the request is built and sent with
  the model identifier \<open>gemini-2.0-flash\<close> and the temperature 0.7; a selector that is a
  key resolves to its own entry, and the request is built and sent with the identifier and
  the temperature of that entry. What the extractor returns is then decided by the
  service's response alone.
\<close>

theorem model_selector_resolution:
  assumes "''google.generativeai'' \<in> set (installed e)"
    and "''jinja2'' \<in> set (installed e)"
    and "system_txt e = Some system_prompt"
    and "user_txt e = Some template"
    and "render e template content = Some prompt"
  shows "(MODELS model_key = None \<longrightarrow>
      get_model_config model_key =
        Inr \<lparr>model_id = ''gemini-2.0-flash'', config_temperature = 7 / 10\<rparr> \<and>
      build_request e content api_key model_key =
        Inr \<lparr>req_api_key = api_key, model_name = ''gemini-2.0-flash'',
             system_instruction = system_prompt, temperature = 7 / 10,
             response_mime_type = ''application/json'', req_schema = response_schema,
             user_prompt = prompt\<rparr>) \<and>
   (\<forall>cfg. MODELS model_key = Some cfg \<longrightarrow>
      get_model_config model_key = Inr cfg \<and>
      build_request e content api_key model_key =
        Inr \<lparr>req_api_key = api_key, model_name = model_id cfg,
             system_instruction = system_prompt, temperature = config_temperature cfg,
             response_mime_type = ''application/json'', req_schema = response_schema,
             user_prompt = prompt\<rparr>) \<and>
   (\<exists>req. build_request e content api_key model_key = Inr req \<and>
      extract_with_gemini e content api_key model_key =
        (case generate e req of
           CallFails \<Rightarrow> (Inl ServiceError, [req])
         | NotJSON \<Rightarrow> (Inl JSONDecodeError, [req])
         | Parsed v \<Rightarrow> (Inr v, [req])))"
proof -
  have d: "MODELS ''gemini-2.0-flash'' =
      Some \<lparr>model_id = ''gemini-2.0-flash'', config_temperature = 7 / 10\<rparr>"
    by (simp add: MODELS_def)
  have cfg: "get_model_config model_key =
      Inr (case MODELS model_key of
             None \<Rightarrow> \<lparr>model_id = ''gemini-2.0-flash'', config_temperature = 7 / 10\<rparr>
           | Some c \<Rightarrow> c)"
    by (simp add: get_model_config_def d)
  have built: "build_request e content api_key model_key =
      Inr \<lparr>req_api_key = api_key,
           model_name = model_id (case MODELS model_key of
             None \<Rightarrow> \<lparr>model_id = ''gemini-2.0-flash'', config_temperature = 7 / 10\<rparr>
           | Some c \<Rightarrow> c),
           system_instruction = system_prompt,
           temperature = config_temperature (case MODELS model_key of
             None \<Rightarrow> \<lparr>model_id = ''gemini-2.0-flash'', config_temperature = 7 / 10\<rparr>
           | Some c \<Rightarrow> c),
           response_mime_type = ''application/json'', req_schema = response_schema,
           user_prompt = prompt\<rparr>"
    using assms by (simp add: build_request_def cfg)
  have a: "MODELS model_key = None \<longrightarrow>
      get_model_config model_key =
        Inr \<lparr>model_id = ''gemini-2.0-flash'', config_temperature = 7 / 10\<rparr> \<and>
      build_request e content api_key model_key =
        Inr \<lparr>req_api_key = api_key, model_name = ''gemini-2.0-flash'',
             system_instruction = system_prompt, temperature = 7 / 10,
             response_mime_type = ''application/json'', req_schema = response_schema,
             user_prompt = prompt\<rparr>"
    by (simp add: cfg built)
  have b: "\<forall>cfg. MODELS model_key = Some cfg \<longrightarrow>
      get_model_config model_key = Inr cfg \<and>
      build_request e content api_key model_key =
        Inr \<lparr>req_api_key = api_key, model_name = model_id cfg,
             system_instruction = system_prompt, temperature = config_temperature cfg,
             response_mime_type = ''application/json'', req_schema = response_schema,
             user_prompt = prompt\<rparr>"
    by (simp add: cfg built)
  have c: "\<exists>req. build_request e content api_key model_key = Inr req \<and>
      extract_with_gemini e content api_key model_key =
        (case generate e req of
           CallFails \<Rightarrow> (Inl ServiceError, [req])
         | NotJSON \<Rightarrow> (Inl JSONDecodeError, [req])
         | Parsed v \<Rightarrow> (Inr v, [req]))"
    by (simp add: built extract_with_gemini_def)
  from a b c show ?thesis by blast
qed

theorem model_selector_resolution_witness:
  "build_request (example_env scripted) ''alpha'' ''key'' ''gemini-9'' = Inr (example_request ''alpha'') \<and>
   build_request (example_env scripted) ''alpha'' ''key'' ''gemini-3-flash-preview'' =
     Inr ((example_request ''alpha'')\<lparr>model_name := ''gemini-3-pro-preview'', temperature := 1\<rparr>) \<and>
   get_model_config ''gemini-9'' =
     Inr \<lparr>model_id = ''gemini-2.0-flash'', config_temperature = 7 / 10\<rparr> \<and>
   get_model_config ''gemini-3-flash-preview'' =
     Inr \<lparr>model_id = ''gemini-3-pro-preview'', config_temperature = 1\<rparr> \<and>
   (\<exists>req. extract_with_gemini (example_env scripted) ''alpha'' ''key'' ''gemini-9'' =
      (case generate (example_env scripted) req of
         CallFails \<Rightarrow> (Inl ServiceError, [req])
       | NotJSON \<Rightarrow> (Inl JSONDecodeError, [req])
       | Parsed v \<Rightarrow> (Inr v, [req])) \<and>
      model_name req = ''gemini-2.0-flash'' \<and> temperature req = 7 / 10)"
proof -
  have g: "''google.generativeai'' \<in> set (installed (example_env scripted))"
    and j: "''jinja2'' \<in> set (installed (example_env scripted))"
    and sp: "system_txt (example_env scripted) = Some ''Extract the questions and answers.''"
    and ut: "user_txt (example_env scripted) = Some ''Document: ''"
    and rd: "render (example_env scripted) ''Document: '' ''alpha'' = Some ''Document: alpha''"
    by (simp_all add: example_env_def)
  have n: "MODELS ''gemini-9'' = None"
    by (simp add: MODELS_def)
  have s: "MODELS ''gemini-3-flash-preview'' =
      Some \<lparr>model_id = ''gemini-3-pro-preview'', config_temperature = 1\<rparr>"
    by (simp add: MODELS_def)
  note unknown = model_selector_resolution [OF g j sp ut rd, of "''gemini-9''" "''key''"]
  note known = model_selector_resolution [OF g j sp ut rd, of "''gemini-3-flash-preview''" "''key''"]
  from unknown n
  have u1: "get_model_config ''gemini-9'' =
      Inr \<lparr>model_id = ''gemini-2.0-flash'', config_temperature = 7 / 10\<rparr>"
    and u2: "build_request (example_env scripted) ''alpha'' ''key'' ''gemini-9'' =
      Inr \<lparr>req_api_key = ''key'', model_name = ''gemini-2.0-flash'',
           system_instruction = ''Extract the questions and answers.'', temperature = 7 / 10,
           response_mime_type = ''application/json'', req_schema = response_schema,
           user_prompt = ''Document: alpha''\<rparr>"
    by blast+
  from known s
  have k1: "get_model_config ''gemini-3-flash-preview'' =
      Inr \<lparr>model_id = ''gemini-3-pro-preview'', config_temperature = 1\<rparr>"
    and k2: "build_request (example_env scripted) ''alpha'' ''key'' ''gemini-3-flash-preview'' =
      Inr \<lparr>req_api_key = ''key'', model_name = ''gemini-3-pro-preview'',
           system_instruction = ''Extract the questions and answers.'', temperature = 1,
           response_mime_type = ''application/json'', req_schema = response_schema,
           user_prompt = ''Document: alpha''\<rparr>"
    by fastforce+
  from unknown obtain req
    where b: "build_request (example_env scripted) ''alpha'' ''key'' ''gemini-9'' = Inr req"
      and x: "extract_with_gemini (example_env scripted) ''alpha'' ''key'' ''gemini-9'' =
        (case generate (example_env scripted) req of
           CallFails \<Rightarrow> (Inl ServiceError, [req])
         | NotJSON \<Rightarrow> (Inl JSONDecodeError, [req])
         | Parsed v \<Rightarrow> (Inr v, [req]))"
    by blast
  from b u2 have "model_name req = ''gemini-2.0-flash'' \<and> temperature req = 7 / 10"
    by auto
  with x have sent: "\<exists>req. extract_with_gemini (example_env scripted) ''alpha'' ''key'' ''gemini-9'' =
      (case generate (example_env scripted) req of
         CallFails \<Rightarrow> (Inl ServiceError, [req])
       | NotJSON \<Rightarrow> (Inl JSONDecodeError, [req])
       | Parsed v \<Rightarrow> (Inr v, [req])) \<and>
      model_name req = ''gemini-2.0-flash'' \<and> temperature req = 7 / 10"
    by blast
  from u1 u2 k1 k2 sent show ?thesis
    by (simp add: example_request_def)
qed

section \<open>Record identifiers\<close>

lemma process_file_array_cases:
  assumes "process_file e f k m = (Inr (JArr ys), sent)"
  shows "ys = [] \<or>
    (\<exists>content xs. extract_with_gemini e content k m = (Inr (JArr xs), sent) \<and>
       stamp_from (stem f) 0 xs = Inr ys)"
  using assms
  by (auto simp: process_file_def add_ids_def
      split: option.splits sum.splits if_splits prod.splits json.splits)

lemma stamped_id:
  assumes "stamp_from base 0 xs = Inr ys" and "i < length ys"
  shows "dict_get ''id'' (ys ! i) = Some (JStr (record_id base i))"
proof -
  from assms have "i < length xs" by (simp add: stamp_from_length)
  from stamp_from_nth [OF assms(1) this] show ?thesis
    by (auto simp: dict_get_def map_of_setitem)
qed

lemma stamped_other_keys:
  assumes "stamp_from base 0 xs = Inr ys" and "i < length ys" and "key \<noteq> ''id''"
  shows "dict_get key (ys ! i) = dict_get key (xs ! i)"
proof -
  from assms have "i < length xs" by (simp add: stamp_from_length)
  from stamp_from_nth [OF assms(1) this] assms(3) show ?thesis
    by (auto simp: dict_get_def map_of_setitem)
qed

lemma stamped_ids_distinct:
  assumes "stamp_from base 0 xs = Inr ys"
  shows "distinct (map (dict_get ''id'') ys)"
proof -
  have "\<And>i j. i < length ys \<Longrightarrow> j < length ys \<Longrightarrow> i \<noteq> j \<Longrightarrow>
      dict_get ''id'' (ys ! i) \<noteq> dict_get ''id'' (ys ! j)"
    using stamped_id [OF assms] record_id_inj by fastforce
  then show ?thesis
    by (simp add: distinct_conv_nth)
qed

text \<open>
  Claim C6. In the batch that \<open>process_file\<close> returns for a file, the record at the
  zero-based position \<open>i\<close> carries the identifier made of the file's stem, an underscore,
  the decimal numeral of \<open>i + 1\<close> and \<open>.md\<close>; the identifiers of one batch are pairwise
  distinct; and the batch follows the response: same length, and at every position every
  key other than \<open>id\<close> has the value the service returned there.
\<close>

theorem identifiers_follow_position:
  assumes "process_file e f k m = (Inr (JArr ys), sent)"
  shows "(\<forall>i<length ys. dict_get ''id'' (ys ! i) =
            Some (JStr (stem f @ ''_'' @ str_nat (i + 1) @ ''.md''))) \<and>
         distinct (map (dict_get ''id'') ys) \<and>
         (ys \<noteq> [] \<longrightarrow>
           (\<exists>content xs. extract_with_gemini e content k m = (Inr (JArr xs), sent) \<and>
              length xs = length ys \<and>
              (\<forall>i<length ys. \<forall>key. key \<noteq> ''id'' \<longrightarrow>
                 dict_get key (ys ! i) = dict_get key (xs ! i))))"
proof (cases "ys = []")
  case True
  then show ?thesis by simp
next
  case False
  with process_file_array_cases [OF assms] obtain content xs
    where ex: "extract_with_gemini e content k m = (Inr (JArr xs), sent)"
      and st: "stamp_from (stem f) 0 xs = Inr ys" by blast
  have ids: "\<forall>i<length ys. dict_get ''id'' (ys ! i) =
      Some (JStr (stem f @ ''_'' @ str_nat (i + 1) @ ''.md''))"
    using stamped_id [OF st] by (simp add: record_id_def)
  have others: "\<forall>i<length ys. \<forall>key. key \<noteq> ''id'' \<longrightarrow>
      dict_get key (ys ! i) = dict_get key (xs ! i)"
    using stamped_other_keys [OF st] by blast
  from ids stamped_ids_distinct [OF st] ex stamp_from_length [OF st] others
  show ?thesis by auto
qed

theorem identifiers_follow_position_witness:
  "\<exists>ys. fst (process_file (example_env (\<lambda>req. Parsed three_answers)) (txt_file ''interview'' ''notes'')
       ''key'' ''gemini-2.0-flash'') = Inr (JArr ys) \<and>
     map (dict_get ''id'') ys =
       [Some (JStr ''interview_1.md''), Some (JStr ''interview_2.md''), Some (JStr ''interview_3.md'')] \<and>
     map (dict_get ''question'') ys = [Some (JStr ''Q1''), Some (JStr ''Q2''), Some (JStr ''Q3'')] \<and>
     distinct (map (dict_get ''id'') ys)"
proof -
  define ys where "ys = [JObj (qa ''Personal'' ''Q1'' ''A1'' @ [(''id'', JStr ''interview_1.md'')]),
     JObj (qa ''Ethics'' ''Q2'' ''A2'' @ [(''id'', JStr ''interview_2.md'')]),
     JObj (qa ''Other'' ''Q3'' ''A3'' @ [(''id'', JStr ''interview_3.md'')])]"
  have run: "process_file (example_env (\<lambda>req. Parsed three_answers)) (txt_file ''interview'' ''notes'')
       ''key'' ''gemini-2.0-flash'' = (Inr (JArr ys), [example_request ''notes''])"
    by (simp add: process_file_def example_env_def txt_file_def READERS_def lower_def lower_char_def
        read_txt_def strip_def isspace_def extract_with_gemini_def build_request_def
        get_model_config_def MODELS_def three_answers_def add_ids_def record_id_def qa_def
        str_nat.simps digit_char_def example_request_def ys_def)
  have len: "length ys = 3" by (simp add: ys_def)
  note facts = identifiers_follow_position [OF run]
  from facts len have i0: "dict_get ''id'' (ys ! 0) = Some (JStr ''interview_1.md'')"
    by (simp add: txt_file_def str_nat.simps digit_char_def)
  from facts len have i1: "dict_get ''id'' (ys ! 1) = Some (JStr ''interview_2.md'')"
    by (simp add: txt_file_def str_nat.simps digit_char_def)
  from facts len have i2: "dict_get ''id'' (ys ! 2) = Some (JStr ''interview_3.md'')"
    by (simp add: txt_file_def str_nat.simps digit_char_def)
  have ids: "map (dict_get ''id'') ys =
       [Some (JStr ''interview_1.md''), Some (JStr ''interview_2.md''), Some (JStr ''interview_3.md'')]"
    using i0 i1 i2 by (simp add: ys_def)
  have qs: "map (dict_get ''question'') ys = [Some (JStr ''Q1''), Some (JStr ''Q2''), Some (JStr ''Q3'')]"
    by (simp add: ys_def dict_get_def qa_def)
  from facts have "distinct (map (dict_get ''id'') ys)" by blast
  with run ids qs show ?thesis by auto
qed

section \<open>Falsy spreadsheet cells\<close>

lemma cell_text_blank_falsy: "cell_text (blank_falsy c) = cell_text c"
  by (simp add: cell_text_def blank_falsy_def)

lemma row_text_blank_falsy: "row_text (map blank_falsy row) = row_text row"
  by (simp add: row_text_def comp_def cell_text_blank_falsy)

lemma xlsx_text_blank_falsy: "xlsx_text (map (map (map blank_falsy)) wb) = xlsx_text wb"
proof -
  have "concat (map (map (map blank_falsy)) wb) = map (map blank_falsy) (concat wb)"
    by (simp add: map_concat)
  then show ?thesis
    by (simp add: xlsx_text_def comp_def row_text_blank_falsy)
qed

text \<open>
  Claim C9. In the spreadsheet reader a cell whose value is falsy renders as the empty
  string and not as the text of its value: the number 0 (whose text is \<open>0\<close>), the boolean
  \<open>False\<close> (whose text is \<open>False\<close>) and the empty string, as the absent cell does. The
  extracted text of a workbook is the text of the workbook in which every falsy cell has
  been emptied, so those values are lost.
\<close>

theorem falsy_cells_render_empty:
  "(\<not> truthy c \<longrightarrow> cell_text c = []) \<and>
   \<not> truthy (CInt 0) \<and> str_cell (CInt 0) = ''0'' \<and>
   \<not> truthy (CBool False) \<and> str_cell (CBool False) = ''False'' \<and>
   \<not> truthy (CStr []) \<and> \<not> truthy CNone \<and>
   xlsx_text wb = xlsx_text (map (map (map blank_falsy)) wb)"
  by (simp add: cell_text_def xlsx_text_blank_falsy str_int_def str_nat.simps digit_char_def)

theorem falsy_cells_render_empty_witness:
  "cell_text (CInt 0) = [] \<and> cell_text (CBool False) = [] \<and>
   xlsx_text [[[CStr ''score'', CInt 0, CBool False]]] = xlsx_text [[[CStr ''score'', CNone, CNone]]]"
proof -
  have a: "\<not> truthy (CInt 0)" and b: "\<not> truthy (CBool False)" by simp_all
  from falsy_cells_render_empty [of "CInt 0"] a have "cell_text (CInt 0) = []" by blast
  moreover from falsy_cells_render_empty [of "CBool False"] b have "cell_text (CBool False) = []" by blast
  moreover from falsy_cells_render_empty [of _ "[[[CStr ''score'', CInt 0, CBool False]]]"]
  have "xlsx_text [[[CStr ''score'', CInt 0, CBool False]]] = xlsx_text [[[CStr ''score'', CNone, CNone]]]"
    by (simp add: blank_falsy_def)
  ultimately show ?thesis by simp
qed

section \<open>Append mode with no prior output\<close>

text \<open>
  Claim C10. With \<open>--append\<close> and an output path that does not exist, the run is the run
  without \<open>--append\<close>: no further failure is raised, and when the extraction of the files
  succeeds the output holds exactly the newly extracted records.
\<close>

theorem append_without_prior_output:
  "main e (a\<lparr>arg_append := True\<rparr>) Absent = main e (a\<lparr>arg_append := False\<rparr>) Absent \<and>
   (MODELS (arg_model a) \<noteq> None \<and> arg_api_key a \<noteq> [] \<and> arg_files a \<noteq> [] \<and>
    extract_each e (arg_api_key a) (arg_model a) (arg_files a) [] = (Inr new, sent) \<longrightarrow>
      main e (a\<lparr>arg_append := True\<rparr>) Absent =
        \<lparr>raised = None, out_file = Stored (JArr new), requests = sent\<rparr>)"
  by (simp add: main_def split: prod.splits sum.splits)

theorem append_without_prior_output_witness:
  "main (example_env scripted) (example_args [txt_file ''a'' ''alpha''] True) Absent =
     \<lparr>raised = None,
      out_file = Stored (JArr [JObj (qa ''Personal'' ''Q1'' ''A1'' @ [(''id'', JStr ''a_1.md'')]),
                               JObj (qa ''Ethics'' ''Q2'' ''A2'' @ [(''id'', JStr ''a_2.md'')])]),
      requests = [example_request ''alpha'']\<rparr>"
proof -
  define a where "a = example_args [txt_file ''a'' ''alpha''] True"
  define new where "new = [JObj (qa ''Personal'' ''Q1'' ''A1'' @ [(''id'', JStr ''a_1.md'')]),
                           JObj (qa ''Ethics'' ''Q2'' ''A2'' @ [(''id'', JStr ''a_2.md'')])]"
  have run: "extract_each (example_env scripted) ''key'' ''gemini-2.0-flash'' [txt_file ''a'' ''alpha''] [] =
      (Inr new, [example_request ''alpha''])"
    by (simp add: process_file_def example_env_def txt_file_def READERS_def lower_def lower_char_def
        read_txt_def strip_def isspace_def extract_with_gemini_def build_request_def
        get_model_config_def MODELS_def scripted_def add_ids_def record_id_def qa_def
        str_nat.simps digit_char_def example_request_def list_extend_def new_def)
  have pre: "MODELS (arg_model a) \<noteq> None \<and> arg_api_key a \<noteq> [] \<and> arg_files a \<noteq> [] \<and>
      extract_each (example_env scripted) (arg_api_key a) (arg_model a) (arg_files a) [] =
        (Inr new, [example_request ''alpha''])"
    using run by (simp add: a_def example_args_def MODELS_def)
  have same: "a\<lparr>arg_append := True\<rparr> = a"
    by (simp add: a_def example_args_def)
  from append_without_prior_output [of "example_env scripted" a new "[example_request ''alpha'']"] pre
  have "main (example_env scripted) (a\<lparr>arg_append := True\<rparr>) Absent =
      \<lparr>raised = None, out_file = Stored (JArr new), requests = [example_request ''alpha'']\<rparr>"
    by blast
  then show ?thesis
    unfolding same unfolding a_def new_def .
qed

section \<open>Append mode\<close>

lemma main_success:
  assumes "raised (main e a out) = None"
  shows "\<exists>new sent pre.
     MODELS (arg_model a) \<noteq> None \<and> arg_api_key a \<noteq> [] \<and> arg_files a \<noteq> [] \<and>
     extract_each e (arg_api_key a) (arg_model a) (arg_files a) [] = (Inr new, sent) \<and>
     (if arg_append a \<and> out \<noteq> Absent then out = Stored (JArr pre) else pre = []) \<and>
     main e a out = \<lparr>raised = None, out_file = Stored (JArr (pre @ new)), requests = sent\<rparr>"
  using assms
  by (auto simp: main_def concat_existing_def
      split: if_splits prod.splits sum.splits stored.splits json.splits)

lemma main_of_extraction:
  assumes "MODELS (arg_model a) \<noteq> None" and "arg_api_key a \<noteq> []" and "arg_files a \<noteq> []"
    and "extract_each e (arg_api_key a) (arg_model a) (arg_files a) [] = (Inr new, sent)"
    and "if arg_append a \<and> out \<noteq> Absent then out = Stored (JArr pre) else pre = []"
  shows "main e a out = \<lparr>raised = None, out_file = Stored (JArr (pre @ new)), requests = sent\<rparr>"
  using assms
  by (auto simp: main_def concat_existing_def split: if_splits)

text \<open>
  Claim C4. If a run over the files \<open>xs\<close> succeeds, and a second run in append mode
  over the files \<open>ys\<close>, started on the output of the first, succeeds too, then one run
  over \<open>xs @ ys\<close> from the same start succeeds with the output of the second run, records
  and order alike, and sends the requests of both runs in their order. In the second run
  the collection persisted by the first is loaded and stands unchanged before the newly
  extracted records: nothing of it is stamped again or removed.
\<close>

theorem append_mode_associative:
  assumes r1: "main e (a\<lparr>arg_files := xs\<rparr>) out0 = r1" and ok1: "raised r1 = None"
    and r2: "main e (a\<lparr>arg_files := ys, arg_append := True\<rparr>) (out_file r1) = r2"
    and ok2: "raised r2 = None"
  shows "main e (a\<lparr>arg_files := xs @ ys\<rparr>) out0 =
           \<lparr>raised = None, out_file = out_file r2, requests = requests r1 @ requests r2\<rparr> \<and>
         (\<exists>prior new sent. out_file r1 = Stored (JArr prior) \<and>
            extract_each e (arg_api_key a) (arg_model a) ys [] = (Inr new, sent) \<and>
            out_file r2 = Stored (JArr (prior @ new)))"
proof -
  from main_success [of e "a\<lparr>arg_files := xs\<rparr>" out0] r1 ok1
  obtain new1 sent1 pre1 where g: "MODELS (arg_model a) \<noteq> None" "arg_api_key a \<noteq> []" "xs \<noteq> []"
    and e1: "extract_each e (arg_api_key a) (arg_model a) xs [] = (Inr new1, sent1)"
    and p1: "if arg_append a \<and> out0 \<noteq> Absent then out0 = Stored (JArr pre1) else pre1 = []"
    and m1: "r1 = \<lparr>raised = None, out_file = Stored (JArr (pre1 @ new1)), requests = sent1\<rparr>"
    by auto
  from main_success [of e "a\<lparr>arg_files := ys, arg_append := True\<rparr>" "out_file r1"] r2 ok2 m1
  obtain new2 sent2 where
    e2: "extract_each e (arg_api_key a) (arg_model a) ys [] = (Inr new2, sent2)"
    and m2: "r2 = \<lparr>raised = None, out_file = Stored (JArr ((pre1 @ new1) @ new2)), requests = sent2\<rparr>"
    by auto
  from extract_each_from_empty [OF e2]
  have "extract_each e (arg_api_key a) (arg_model a) ys new1 = (Inr (new1 @ new2), sent2)" .
  with e1 have e12: "extract_each e (arg_api_key a) (arg_model a) (xs @ ys) [] =
      (Inr (new1 @ new2), sent1 @ sent2)"
    by (simp add: extract_each_append)
  have "main e (a\<lparr>arg_files := xs @ ys\<rparr>) out0 =
      \<lparr>raised = None, out_file = Stored (JArr (pre1 @ (new1 @ new2))), requests = sent1 @ sent2\<rparr>"
    using g e12 p1 by (intro main_of_extraction) simp_all
  with m1 m2 e2 show ?thesis by simp
qed

lemmas example_defs =
  process_file_def example_env_def txt_file_def READERS_def lower_def lower_char_def
  read_txt_def strip_def isspace_def extract_with_gemini_def build_request_def
  get_model_config_def MODELS_def scripted_def add_ids_def record_id_def
  str_nat.simps digit_char_def example_request_def list_extend_def main_def example_args_def
  concat_existing_def

theorem append_mode_associative_witness:
  "main (example_env scripted)
     (example_args [txt_file ''a'' ''alpha'', txt_file ''b'' ''beta'', txt_file ''c'' ''gamma''] False) Absent =
   \<lparr>raised = None,
    out_file = Stored (JArr
      [JObj (qa ''Personal'' ''Q1'' ''A1'' @ [(''id'', JStr ''a_1.md'')]),
       JObj (qa ''Ethics'' ''Q2'' ''A2'' @ [(''id'', JStr ''a_2.md'')]),
       JObj (qa ''Other'' ''Q3'' ''A3'' @ [(''id'', JStr ''b_1.md'')]),
       JObj (qa ''Technical'' ''Q4'' ''A4'' @ [(''id'', JStr ''c_1.md'')])]),
    requests = [example_request ''alpha'', example_request ''beta'', example_request ''gamma'']\<rparr>"
proof -
  define r1 where "r1 =
    \<lparr>raised = None,
     out_file = Stored (JArr
       [JObj (qa ''Personal'' ''Q1'' ''A1'' @ [(''id'', JStr ''a_1.md'')]),
        JObj (qa ''Ethics'' ''Q2'' ''A2'' @ [(''id'', JStr ''a_2.md'')]),
        JObj (qa ''Other'' ''Q3'' ''A3'' @ [(''id'', JStr ''b_1.md'')])]),
     requests = [example_request ''alpha'', example_request ''beta'']\<rparr>"
  define r2 where "r2 =
    \<lparr>raised = None,
     out_file = Stored (JArr
       [JObj (qa ''Personal'' ''Q1'' ''A1'' @ [(''id'', JStr ''a_1.md'')]),
        JObj (qa ''Ethics'' ''Q2'' ''A2'' @ [(''id'', JStr ''a_2.md'')]),
        JObj (qa ''Other'' ''Q3'' ''A3'' @ [(''id'', JStr ''b_1.md'')]),
        JObj (qa ''Technical'' ''Q4'' ''A4'' @ [(''id'', JStr ''c_1.md'')])]),
     requests = [example_request ''gamma'']\<rparr>"
  have first: "main (example_env scripted)
      ((example_args [] False)\<lparr>arg_files := [txt_file ''a'' ''alpha'', txt_file ''b'' ''beta'']\<rparr>) Absent = r1"
    by (simp add: example_defs qa_def r1_def)
  have second: "main (example_env scripted)
      ((example_args [] False)\<lparr>arg_files := [txt_file ''c'' ''gamma''], arg_append := True\<rparr>) (out_file r1) = r2"
    by (simp add: example_defs qa_def r1_def r2_def)
  have ok1: "raised r1 = None" by (simp add: r1_def)
  have ok2: "raised r2 = None" by (simp add: r2_def)
  have args: "(example_args [] False)\<lparr>arg_files :=
      [txt_file ''a'' ''alpha'', txt_file ''b'' ''beta''] @ [txt_file ''c'' ''gamma'']\<rparr> =
    example_args [txt_file ''a'' ''alpha'', txt_file ''b'' ''beta'', txt_file ''c'' ''gamma''] False"
    by (simp add: example_args_def)
  from append_mode_associative [OF first ok1 second ok2]
  have "main (example_env scripted) ((example_args [] False)\<lparr>arg_files :=
      [txt_file ''a'' ''alpha'', txt_file ''b'' ''beta''] @ [txt_file ''c'' ''gamma'']\<rparr>) Absent =
    \<lparr>raised = None, out_file = out_file r2, requests = requests r1 @ requests r2\<rparr>"
    by blast
  then show ?thesis
    unfolding args by (simp add: r1_def r2_def)
qed

section \<open>Failures inside the run\<close>

lemma process_file_reply:
  assumes "READERS (lower (suffix f)) = Some reader"
    and "reader (installed e) (holds f) = Inr content"
    and "strip content \<noteq> []"
    and "build_request e content k m = Inr req"
  shows "process_file e f k m =
     (case generate e req of
        CallFails \<Rightarrow> (Inl ServiceError, [req])
      | NotJSON \<Rightarrow> (Inl JSONDecodeError, [req])
      | Parsed v \<Rightarrow>
          (case add_ids (stem f) v of
             Inl err \<Rightarrow> (Inl err, [req])
           | Inr stamped \<Rightarrow> (Inr stamped, [req])))"
  using assms
  by (simp add: process_file_def extract_with_gemini_def split: reply.splits sum.splits)

lemma file_failure_stops_loop:
  "f \<in> set fs \<Longrightarrow> process_file e f k m = (Inl err, sent) \<Longrightarrow>
   \<exists>err' sent'. extract_each e k m fs all_qa = (Inl err', sent')"
proof (induction fs arbitrary: all_qa)
  case Nil
  then show ?case by simp
next
  case (Cons g fs)
  show ?case
  proof (cases "process_file e g k m")
    case (Pair r s)
    show ?thesis
    proof (cases r)
      case (Inl a)
      with Pair show ?thesis by simp
    next
      case (Inr qa_pairs)
      with Pair Cons.prems have mem: "f \<in> set fs" by auto
      show ?thesis
      proof (cases "list_extend all_qa qa_pairs")
        case (Inl a)
        with Pair Inr show ?thesis by simp
      next
        case ext: (Inr all_qa')
        from Cons.IH [OF mem Cons.prems(2), of all_qa'] obtain err' sent'
          where "extract_each e k m fs all_qa' = (Inl err', sent')" by blast
        with Pair Inr ext show ?thesis by simp
      qed
    qed
  qed
qed

lemma main_failure_keeps_output: "raised (main e a out) \<noteq> None \<Longrightarrow> out_file (main e a out) = out"
  by (auto simp: main_def split: if_splits prod.splits sum.splits stored.splits)

lemma main_file_failure:
  assumes "f \<in> set (arg_files a)"
    and "process_file e f (arg_api_key a) (arg_model a) = (Inl err, sent)"
  shows "raised (main e a out) \<noteq> None \<and> out_file (main e a out) = out"
proof -
  from file_failure_stops_loop [OF assms, of "[]"] obtain err' sent'
    where "extract_each e (arg_api_key a) (arg_model a) (arg_files a) [] = (Inl err', sent')" by blast
  then have "raised (main e a out) \<noteq> None"
    by (simp add: main_def)
  with main_failure_keeps_output [of e a out] show ?thesis by simp
qed

lemma main_stops_at_failure:
  assumes "MODELS (arg_model a) \<noteq> None" and "arg_api_key a \<noteq> []"
    and "extract_each e (arg_api_key a) (arg_model a) before [] = (Inr acc, sent)"
    and "process_file e f (arg_api_key a) (arg_model a) = (Inl err, sent')"
  shows "main e (a\<lparr>arg_files := before @ f # after\<rparr>) out =
     \<lparr>raised = Some err, out_file = out, requests = sent @ sent'\<rparr>"
  using assms
  by (auto simp: main_def extract_each_append)

text \<open>
  Claim C3, as the script behaves. When the service call for one file fails, by the call
  itself or by a response that is not JSON, the exception leaves the loop over the files:
  the run ends with that failure, the output path is left as it was, so that the records
  of the files before it are not written either, and no file after it is processed: the
  requests sent are those of the files before it and the failed one.
\<close>

theorem failed_call_ends_run:
  assumes "MODELS (arg_model a) \<noteq> None" and "arg_api_key a \<noteq> []"
    and "extract_each e (arg_api_key a) (arg_model a) before [] = (Inr acc, sent)"
    and "READERS (lower (suffix f)) = Some reader"
    and "reader (installed e) (holds f) = Inr content"
    and "strip content \<noteq> []"
    and "build_request e content (arg_api_key a) (arg_model a) = Inr req"
    and "generate e req = CallFails \<or> generate e req = NotJSON"
  shows "main e (a\<lparr>arg_files := before @ f # after\<rparr>) out =
     \<lparr>raised = Some (if generate e req = CallFails then ServiceError else JSONDecodeError),
      out_file = out, requests = sent @ [req]\<rparr>"
proof -
  from process_file_reply [OF assms(4-7)] assms(8)
  have "process_file e f (arg_api_key a) (arg_model a) =
      (Inl (if generate e req = CallFails then ServiceError else JSONDecodeError), [req])"
    by auto
  from main_stops_at_failure [OF assms(1-3) this] show ?thesis .
qed

theorem failed_call_ends_run_witness:
  "main (example_env scripted)
     (example_args [txt_file ''a'' ''alpha'', txt_file ''x'' ''delta'', txt_file ''b'' ''beta''] False)
     (Stored (JArr [])) =
   \<lparr>raised = Some ServiceError, out_file = Stored (JArr []),
    requests = [example_request ''alpha'', example_request ''delta'']\<rparr>"
proof -
  define a where "a = example_args [] False"
  have g: "MODELS (arg_model a) \<noteq> None" "arg_api_key a \<noteq> []"
    by (simp_all add: a_def example_args_def MODELS_def)
  have b: "extract_each (example_env scripted) (arg_api_key a) (arg_model a) [txt_file ''a'' ''alpha''] [] =
      (Inr [JObj (qa ''Personal'' ''Q1'' ''A1'' @ [(''id'', JStr ''a_1.md'')]),
            JObj (qa ''Ethics'' ''Q2'' ''A2'' @ [(''id'', JStr ''a_2.md'')])], [example_request ''alpha''])"
    by (simp add: a_def example_defs qa_def)
  have r: "READERS (lower (suffix (txt_file ''x'' ''delta''))) = Some read_txt"
    by (simp add: txt_file_def READERS_def lower_def lower_char_def)
  have c: "read_txt (installed (example_env scripted)) (holds (txt_file ''x'' ''delta'')) = Inr ''delta''"
    by (simp add: txt_file_def read_txt_def)
  have s: "strip ''delta'' \<noteq> []"
    by (simp add: strip_def isspace_def)
  have q: "build_request (example_env scripted) ''delta'' (arg_api_key a) (arg_model a) =
      Inr (example_request ''delta'')"
    by (simp add: a_def example_defs)
  have fails: "generate (example_env scripted) (example_request ''delta'') = CallFails"
    by (simp add: example_env_def example_request_def scripted_def)
  then have d: "generate (example_env scripted) (example_request ''delta'') = CallFails \<or>
      generate (example_env scripted) (example_request ''delta'') = NotJSON" ..
  have args: "a\<lparr>arg_files := [txt_file ''a'' ''alpha''] @ txt_file ''x'' ''delta'' # [txt_file ''b'' ''beta'']\<rparr> =
      example_args [txt_file ''a'' ''alpha'', txt_file ''x'' ''delta'', txt_file ''b'' ''beta''] False"
    by (simp add: a_def example_args_def)
  from failed_call_ends_run [OF g b r c s q d, of "[txt_file ''b'' ''beta'']" "Stored (JArr [])"] fails
  show ?thesis
    unfolding args by simp
qed

text \<open>
  Claim C3 as stated fails: the run does not continue. The service fails on the first of
  two files; the second, which on its own yields a record, is never sent to the service,
  and nothing is written.
\<close>

theorem run_continues_counterexample:
  "process_file (example_env scripted) (txt_file ''b'' ''beta'') ''key'' ''gemini-2.0-flash'' =
     (Inr (JArr [JObj (qa ''Other'' ''Q3'' ''A3'' @ [(''id'', JStr ''b_1.md'')])]), [example_request ''beta'']) \<and>
   main (example_env scripted) (example_args [txt_file ''x'' ''delta'', txt_file ''b'' ''beta''] False) Absent =
     \<lparr>raised = Some ServiceError, out_file = Absent, requests = [example_request ''delta'']\<rparr>"
  by (simp add: example_defs qa_def)

section \<open>Responses that violate the schema\<close>

text \<open>
  Claim C1, evaluated where it fails. A response whose only element lacks the \<open>answer\<close>
  field does not conform to the response schema, and the declared model \<open>InterviewQA\<close>
  does not accept the element; \<open>process_file\<close> still returns the element, stamped with
  its identifier, and the run writes it to the aggregate without raising.
\<close>

theorem missing_answer_committed:
  "\<not> conforms response_schema missing_answer \<and>
   \<not> InterviewQA (JObj [(''category'', JStr ''Personal''), (''question'', JStr ''Q1'')]) \<and>
   process_file (example_env (\<lambda>req. Parsed missing_answer)) (txt_file ''interview'' ''notes'')
       ''key'' ''gemini-2.0-flash'' =
     (Inr (JArr [JObj [(''category'', JStr ''Personal''), (''question'', JStr ''Q1''),
                       (''id'', JStr ''interview_1.md'')]]),
      [example_request ''notes'']) \<and>
   main (example_env (\<lambda>req. Parsed missing_answer)) (example_args [txt_file ''interview'' ''notes''] False) Absent =
     \<lparr>raised = None,
      out_file = Stored (JArr [JObj [(''category'', JStr ''Personal''), (''question'', JStr ''Q1''),
                                    (''id'', JStr ''interview_1.md'')]]),
      requests = [example_request ''notes'']\<rparr>"
  by (simp add: example_defs missing_answer_def response_schema_def InterviewQA_def dict_get_def)

section \<open>Categories\<close>

text \<open>
  Claim C2, evaluated where it fails. The response schema sent with the request declares
  \<open>category\<close> as a string with no restriction, so a response whose category is
  \<open>Misc\<close> conforms to it; \<open>Misc\<close> is not in \<open>CategoryType\<close>, the declared model
  \<open>InterviewQA\<close> does not accept the record, and the run writes the record to the
  aggregate.
\<close>

theorem category_outside_closed_set:
  "conforms response_schema off_category \<and>
   ''Misc'' \<notin> set CategoryType \<and>
   \<not> InterviewQA (JObj (qa ''Misc'' ''Q1'' ''A1'' @ [(''id'', JStr ''interview_1.md'')])) \<and>
   main (example_env (\<lambda>req. Parsed off_category)) (example_args [txt_file ''interview'' ''notes''] False) Absent =
     \<lparr>raised = None,
      out_file = Stored (JArr [JObj (qa ''Misc'' ''Q1'' ''A1'' @ [(''id'', JStr ''interview_1.md'')])]),
      requests = [example_request ''notes'']\<rparr>"
  by (simp add: example_defs off_category_def response_schema_def qa_def CategoryType_def
      InterviewQA_def dict_get_def)

section \<open>The spreadsheet reader against its specification\<close>

text \<open>
  On a workbook in which every cell is empty or holds a truthy value, the reader returns
  what the specification describes.
\<close>

lemma cell_text_spec: "truthy c \<or> c = CNone \<Longrightarrow> cell_text c = spec_cell_text c"
  by (cases c) (auto simp: cell_text_def spec_cell_text_def)

lemma xlsx_text_spec:
  assumes "list_all (list_all (list_all (\<lambda>c. truthy c \<or> c = CNone))) wb"
  shows "xlsx_text wb = spec_xlsx_text wb"
proof -
  have "map row_text (concat wb) = map (\<lambda>row. join [TAB] (map spec_cell_text row)) (concat wb)"
    using assms by (auto simp: row_text_def list_all_iff cell_text_spec intro!: map_cong arg_cong [where f = "join [TAB]"])
  then show ?thesis
    by (simp only: xlsx_text_def spec_xlsx_text_def strip_empty_iff)
qed

text \<open>
  Claim C8, evaluated where it fails. For the row of the string \<open>score\<close> and the number
  0 the reader returns \<open>score\<close> followed by a tab, where the tab-joined cell values are
  \<open>score\<close>, a tab and \<open>0\<close>.
\<close>

theorem zero_cell_dropped:
  "read_xlsx [''openpyxl''] (Workbook [[[CStr ''score'', CInt 0]]]) = Inr (''score'' @ [TAB]) \<and>
   spec_xlsx_text [[[CStr ''score'', CInt 0]]] = ''score'' @ [TAB] @ ''0''"
  by (simp add: read_xlsx_def xlsx_text_def row_text_def cell_text_def strip_def isspace_def TAB_def
      spec_xlsx_text_def spec_cell_text_def str_int_def str_nat.simps digit_char_def)

end
